theory Spec2Isabelle
  imports
    Complex_Main
    "HOL-Library.AList"
    "HOL-Library.Char_ord"
    "HOL-Library.List_Lexorder"
    "HOL-Library.Word"
begin

section \<open>The ledger and its monthly carry-forward (src/App.tsx)\<close>

text \<open>
  \<^verbatim>\<open>src/App.tsx\<close> holds two revisions of the component, one after the other. The first
  (lines 1 to 647) seeds a month's allocation in the effect at lines 149 to 161; the second
  (lines 648 to 1921) replaces that effect by the one at lines 831 to 859, which adds two
  guards under the comment "BUT only carry forward to FUTURE months, not backwards to past
  months". Both effects are modelled, \<open>seedBucket_old\<close> and \<open>carryForward_old\<close> for
  the first revision, \<open>seedBucket\<close> and \<open>carryForward\<close> for the second, and every
  claim on the carry-forward is settled for both.

  Month keys are the strings \<open>YYYY-MM\<close> built by \<open>monthKey\<close>. JavaScript compares
  strings, in \<open>k < activeMonthKey\<close> and in the default \<open>sort()\<close>, code unit by code
  unit, a proper prefix coming first: the lexicographic order on \<open>string\<close> given by
  \<open>Char_ord\<close> and \<open>List_Lexorder\<close>.

  An amount is a JavaScript \<open>number\<close>. The carry-forward only copies amounts and writes
  the constant \<open>0\<close>, so the amount type is left open: any type \<open>'v\<close> with a zero.

  An object used as a dictionary (\<open>Record<string, number>\<close>) is an association list in
  property order. \<open>obj[k]\<close> is \<open>map_of obj k\<close>, with \<open>None\<close> for
  \<open>undefined\<close>; \<open>Object.keys(obj)\<close> is \<open>map fst obj\<close>; the spread
  \<open>{...obj, [k]: v}\<close> is \<open>AList.update k v obj\<close>, which replaces the value of an
  existing key in place and appends a new key at the end.
\<close>

type_synonym ID = string
type_synonym monthKey = string

record 'v Bucket =
  id_Bucket :: ID
  name :: string
  category :: "string option"
  allocations :: "(monthKey \<times> 'v) list"
  isIncome :: "bool option"
  deletedMonths :: "(monthKey \<times> bool) list option"

record 'v Txn =
  id_Txn :: ID
  date :: string
  description :: string
  amount :: 'v
  bucketId :: "ID option"
  deleted :: "bool option"

record 'v AppState =
  buckets :: "'v Bucket list"
  txns :: "'v Txn list"
  version :: "nat option"

definition Object_keys :: "(string \<times> 'v) list \<Rightarrow> string list" where
  "Object_keys obj = map fst obj"

text \<open>\<open>xs[xs.length - 1]\<close>: the last element, \<open>undefined\<close> on the empty array.\<close>

definition last_elem :: "'a list \<Rightarrow> 'a option" where
  "last_elem xs = (if xs = [] then None else Some (last xs))"

text \<open>
  \<open>prev ? b.allocations[prev] : 0\<close>. A string is truthy unless it is empty;
  \<open>undefined\<close> is falsy. In the truthy case \<open>prev\<close> is one of the object's own
  keys (lemma \<open>carryOf_key\<close> below), so the lookup is defined.
\<close>

definition carryOf :: "(monthKey \<times> 'v) list \<Rightarrow> monthKey option \<Rightarrow> 'v::zero" where
  "carryOf allocs prev =
     (case prev of
        None \<Rightarrow> 0
      | Some k \<Rightarrow> if k = [] then 0 else the (map_of allocs k))"

text \<open>The first revision, lines 152 to 158: the callback mapped over \<open>s.buckets\<close>.\<close>

definition seedBucket_old :: "monthKey \<Rightarrow> 'v::zero Bucket \<Rightarrow> 'v Bucket" where
  "seedBucket_old activeMonthKey b =
     (if map_of (allocations b) activeMonthKey \<noteq> None then b
      else
        let prevKeys = sort (filter (\<lambda>k. k < activeMonthKey) (Object_keys (allocations b)));
            prev = last_elem prevKeys;
            carry = carryOf (allocations b) prev
        in b\<lparr>allocations := AList.update activeMonthKey carry (allocations b)\<rparr>)"

definition carryForward_old :: "monthKey \<Rightarrow> 'v::zero AppState \<Rightarrow> 'v AppState" where
  "carryForward_old activeMonthKey s =
     s\<lparr>buckets := map (seedBucket_old activeMonthKey) (buckets s)\<rparr>"

text \<open>The second revision, lines 836 to 856.\<close>

definition seedBucket :: "monthKey \<Rightarrow> 'v::zero Bucket \<Rightarrow> 'v Bucket" where
  "seedBucket activeMonthKey b =
     (if map_of (allocations b) activeMonthKey \<noteq> None then b
      else
        let allocationKeys = sort (Object_keys (allocations b)) in
        if length allocationKeys = 0 then b
        else
          let firstMonth = hd allocationKeys in
          if activeMonthKey < firstMonth then b
          else
            let prevKeys = filter (\<lambda>k. k < activeMonthKey) allocationKeys;
                prev = last_elem prevKeys;
                carry = carryOf (allocations b) prev
            in b\<lparr>allocations := AList.update activeMonthKey carry (allocations b)\<rparr>)"

definition carryForward :: "monthKey \<Rightarrow> 'v::zero AppState \<Rightarrow> 'v AppState" where
  "carryForward activeMonthKey s =
     s\<lparr>buckets := map (seedBucket activeMonthKey) (buckets s)\<rparr>"

text \<open>
  Navigating through a list of months in turn: the effect runs once for each value the
  active month takes.
\<close>

definition seedMonths :: "monthKey list \<Rightarrow> 'v::zero Bucket \<Rightarrow> 'v Bucket" where
  "seedMonths ms b = foldl (\<lambda>b' m. seedBucket m b') b ms"

definition seedMonths_old :: "monthKey list \<Rightarrow> 'v::zero Bucket \<Rightarrow> 'v Bucket" where
  "seedMonths_old ms b = foldl (\<lambda>b' m. seedBucket_old m b') b ms"


text \<open>
  The invariant behind carrying forward: \<open>t\<close> is the latest month of the bucket that
  has an entry, it is a non-empty key, and its amount is \<open>v\<close>.
\<close>

definition latest :: "'v Bucket \<Rightarrow> monthKey \<Rightarrow> 'v \<Rightarrow> bool" where
  "latest b t v \<longleftrightarrow>
     t \<in> set (Object_keys (allocations b)) \<and>
     (\<forall>k\<in>set (Object_keys (allocations b)). k \<le> t) \<and>
     t \<noteq> [] \<and> map_of (allocations b) t = Some v"

text \<open>
  What the transition may do to one bucket \<open>b\<close>, giving \<open>b'\<close>: every field but
  \<open>allocations\<close> is kept, every entry of \<open>b\<close> is kept with its amount and its
  place, and at most one entry is added, keyed by the active month \<open>M\<close>, which had
  none.
\<close>

definition only_adds_month :: "monthKey \<Rightarrow> 'v Bucket \<Rightarrow> 'v Bucket \<Rightarrow> bool" where
  "only_adds_month M b b' \<longleftrightarrow>
     id_Bucket b' = id_Bucket b \<and> name b' = name b \<and> category b' = category b \<and>
     isIncome b' = isIncome b \<and> deletedMonths b' = deletedMonths b \<and>
     Bucket.more b' = Bucket.more b \<and>
     (\<forall>k v. map_of (allocations b) k = Some v \<longrightarrow> map_of (allocations b') k = Some v) \<and>
     (\<forall>k. k \<noteq> M \<longrightarrow> map_of (allocations b') k = map_of (allocations b) k) \<and>
     (allocations b' = allocations b \<or>
      map_of (allocations b) M = None \<and> (\<exists>c. allocations b' = allocations b @ [(M, c)]))"

section \<open>The envelope codec (src/lib/crypto.ts)\<close>

text \<open>
  The codec is plumbing around the JavaScript runtime: \<open>JSON\<close>, \<open>btoa\<close> and
  \<open>atob\<close>, \<open>TextEncoder\<close> and \<open>TextDecoder\<close>, and Web Crypto's PBKDF2 and
  AES-GCM. None of these is code of the repository, so they are parameters of the model,
  collected in a record \<open>platform\<close>. What a theorem needs from them (that
  \<open>atob\<close> inverts \<open>btoa\<close>, that decryption inverts encryption under the same key
  and nonce, and so on) is a hypothesis of that theorem.

  A document is a JSON value. \<open>JSON.parse\<close> throws \<open>SyntaxError\<close> on malformed
  text (\<open>None\<close>); \<open>atob\<close> throws \<open>InvalidCharacterError\<close> (\<open>None\<close>);
  AES-GCM decryption rejects with \<open>OperationError\<close> when the authentication tag
  does not verify (\<open>None\<close>).
\<close>

type_synonym bytes = "8 word list"
type_synonym CryptoKey = bytes

datatype json =
    JNull
  | JBool bool
  | JNum real
  | JStr string
  | JArr "json list"
  | JObj "(string \<times> json) list"

datatype error =
    SyntaxError
  | Unsupported_payload
  | InvalidCharacterError
  | OperationError
  | PostgrestError string

record platform =
  JSON_stringify :: "json \<Rightarrow> string"
  JSON_parse :: "string \<Rightarrow> json option"
  btoa :: "string \<Rightarrow> string"
  atob :: "string \<Rightarrow> string option"
  TextEncoder_encode :: "string \<Rightarrow> bytes"
  TextDecoder_decode :: "bytes \<Rightarrow> string"
  PBKDF2_deriveKey :: "bytes \<Rightarrow> bytes \<Rightarrow> nat \<Rightarrow> string \<Rightarrow> nat \<Rightarrow> CryptoKey"
  AES_GCM_encrypt :: "CryptoKey \<Rightarrow> bytes \<Rightarrow> bytes \<Rightarrow> bytes"
  AES_GCM_decrypt :: "CryptoKey \<Rightarrow> bytes \<Rightarrow> bytes \<Rightarrow> bytes option"
  String_of :: "json \<Rightarrow> string"

text \<open>JavaScript truthiness of a parsed JSON value (\<open>!parsed\<close>, \<open>if (remote)\<close>).\<close>

fun truthy :: "json \<Rightarrow> bool" where
  "truthy JNull = False"
| "truthy (JBool b) = b"
| "truthy (JNum x) = (x \<noteq> 0)"
| "truthy (JStr s) = (s \<noteq> [])"
| "truthy (JArr _) = True"
| "truthy (JObj _) = True"

text \<open>
  \<open>parsed.v\<close>, \<open>parsed.salt\<close>, \<open>parsed.iv\<close>, \<open>parsed.cipher\<close>: a property read.
  Only an object has a property of one of these names; on every other non-null value the
  read gives \<open>undefined\<close> (\<open>None\<close>).
\<close>

fun getProp :: "json \<Rightarrow> string \<Rightarrow> json option" where
  "getProp (JObj kvs) k = map_of kvs k"
| "getProp _ k = None"

text \<open>
  \<open>atob\<close> converts its argument to a string first. The conversion of a number, an
  array or an object is the platform's (\<open>String_of\<close>).
\<close>

fun ToString :: "platform \<Rightarrow> json option \<Rightarrow> string" where
  "ToString pl None = ''undefined''"
| "ToString pl (Some JNull) = ''null''"
| "ToString pl (Some (JBool b)) = (if b then ''true'' else ''false'')"
| "ToString pl (Some (JStr s)) = s"
| "ToString pl (Some j) = String_of pl j"

text \<open>Lines 9 to 19. \<open>String.fromCharCode\<close> of a byte and \<open>charCodeAt\<close> stored in a
  \<open>Uint8Array\<close> cell.\<close>

definition b64Encode :: "platform \<Rightarrow> bytes \<Rightarrow> string" where
  "b64Encode pl bs = btoa pl (map (\<lambda>b. char_of (unat b)) bs)"

definition b64DecodeToBytes :: "platform \<Rightarrow> string \<Rightarrow> error + bytes" where
  "b64DecodeToBytes pl b64 =
     (case atob pl b64 of
        None \<Rightarrow> Inl InvalidCharacterError
      | Some bin \<Rightarrow> Inr (map (\<lambda>c. of_nat (of_char c)) bin))"

text \<open>Lines 21 to 33: PBKDF2 with 100000 iterations of SHA-256, for a 256-bit AES-GCM key.\<close>

definition deriveKey :: "platform \<Rightarrow> string \<Rightarrow> bytes \<Rightarrow> CryptoKey" where
  "deriveKey pl passphrase saltBytes =
     (let encText = TextEncoder_encode pl passphrase
      in PBKDF2_deriveKey pl encText saltBytes 100000 ''SHA-256'' 256)"

text \<open>
  Lines 35 to 54. The object literal of lines 48 to 53 is \<open>envelope\<close>; the salt and the
  nonce come from \<open>crypto.getRandomValues\<close> and are arguments here
  (\<open>encryptJSON\<close> below draws them).
\<close>

definition envelope :: "platform \<Rightarrow> bytes \<Rightarrow> bytes \<Rightarrow> string \<Rightarrow> json \<Rightarrow> json" where
  "envelope pl salt iv passphrase obj =
     (let key = deriveKey pl passphrase salt;
          plaintext = TextEncoder_encode pl (JSON_stringify pl obj);
          cipherBuf = AES_GCM_encrypt pl key iv plaintext
      in JObj [(''v'', JNum 1),
               (''salt'', JStr (b64Encode pl salt)),
               (''iv'', JStr (b64Encode pl iv)),
               (''cipher'', JStr (b64Encode pl cipherBuf))])"

definition encryptJSON_with :: "platform \<Rightarrow> bytes \<Rightarrow> bytes \<Rightarrow> string \<Rightarrow> json \<Rightarrow> string" where
  "encryptJSON_with pl salt iv passphrase obj =
     JSON_stringify pl (envelope pl salt iv passphrase obj)"

text \<open>Lines 56 to 69.\<close>

definition decryptJSON :: "platform \<Rightarrow> string \<Rightarrow> string \<Rightarrow> error + json" where
  "decryptJSON pl passphrase payload =
     (case JSON_parse pl payload of
        None \<Rightarrow> Inl SyntaxError
      | Some parsed \<Rightarrow>
          if \<not> truthy parsed \<or> getProp parsed ''v'' \<noteq> Some (JNum 1) then Inl Unsupported_payload
          else
            (case b64DecodeToBytes pl (ToString pl (getProp parsed ''salt'')) of
               Inl e \<Rightarrow> Inl e
             | Inr saltBytes \<Rightarrow>
            (case b64DecodeToBytes pl (ToString pl (getProp parsed ''iv'')) of
               Inl e \<Rightarrow> Inl e
             | Inr ivBytes \<Rightarrow>
            (case b64DecodeToBytes pl (ToString pl (getProp parsed ''cipher'')) of
               Inl e \<Rightarrow> Inl e
             | Inr cipherBytes \<Rightarrow>
                 let key = deriveKey pl passphrase saltBytes in
                 (case AES_GCM_decrypt pl key ivBytes cipherBytes of
                    None \<Rightarrow> Inl OperationError
                  | Some plainBuf \<Rightarrow>
                      let text = TextDecoder_decode pl plainBuf in
                      (case JSON_parse pl text of
                         None \<Rightarrow> Inl SyntaxError
                       | Some doc \<Rightarrow> Inr doc))))))"

section \<open>Local and remote persistence (src/lib/storage.ts)\<close>

text \<open>
  The functions of \<open>storage.ts\<close> read and write the browser's \<open>localStorage\<close>, a
  Supabase table \<open>states\<close> and the random source. These are the fields of a record
  \<open>world\<close>, which every function takes and the writing ones return. An \<open>await\<close>
  is a sequence point: a promise that rejects is the result \<open>Inl e\<close>, one that
  fulfils is \<open>Inr v\<close>.

  \<^item> \<open>localStorage = None\<close>: \<open>hasLocalStorage()\<close> is false (no \<open>window\<close>, or
    reading \<open>window.localStorage\<close> throws). Otherwise the store holds its items and
    says for which writes \<open>setItem\<close> throws (a full quota).
  \<^item> \<open>supabase = None\<close>: \<open>getSupabase()\<close> is null (URL or key missing, or
    \<open>createClient\<close> threw). Otherwise the backend holds the rows of \<open>states\<close>,
    at most one for a \<open>household_id\<close>, and says which \<open>select\<close> and which
    \<open>upsert\<close> come back with an error.
  \<^item> \<open>random\<close> is the stream \<open>crypto.getRandomValues\<close> serves, \<open>drawn\<close> the
    number of bytes served so far.
\<close>

record storage =
  items :: "string \<rightharpoonup> string"
  setItem_throws :: "string \<Rightarrow> string \<Rightarrow> bool"

record backend =
  rows :: "(string \<times> json) list"
  select_error :: "string \<Rightarrow> bool"
  upsert_error :: "string \<Rightarrow> json \<Rightarrow> string option"

record world =
  localStorage :: "storage option"
  supabase :: "backend option"
  random :: "nat \<Rightarrow> 8 word"
  drawn :: nat

definition LOCAL_STORAGE_KEY :: string where
  "LOCAL_STORAGE_KEY = ''trowbridge-budget-state''"

definition hasLocalStorage :: "world \<Rightarrow> bool" where
  "hasLocalStorage w = (localStorage w \<noteq> None)"

text \<open>Lines 15 to 21. \<open>null\<close> is \<open>JNull\<close>; the \<open>catch\<close> turns a parse error into
  \<open>null\<close>.\<close>

definition loadLocal :: "platform \<Rightarrow> world \<Rightarrow> json" where
  "loadLocal pl w =
     (case localStorage w of
        None \<Rightarrow> JNull
      | Some st \<Rightarrow>
          (case items st LOCAL_STORAGE_KEY of
             None \<Rightarrow> JNull
           | Some raw \<Rightarrow>
               if raw \<noteq> [] then
                 (case JSON_parse pl raw of None \<Rightarrow> JNull | Some v \<Rightarrow> v)
               else JNull))"

text \<open>Lines 22 to 25. The empty \<open>catch\<close> swallows a throwing \<open>setItem\<close>.\<close>

definition saveLocal :: "platform \<Rightarrow> world \<Rightarrow> json \<Rightarrow> world" where
  "saveLocal pl w state =
     (case localStorage w of
        None \<Rightarrow> w
      | Some st \<Rightarrow>
          let text = JSON_stringify pl state in
          if setItem_throws st LOCAL_STORAGE_KEY text then w
          else w\<lparr>localStorage := Some (st\<lparr>items := (items st)(LOCAL_STORAGE_KEY \<mapsto> text)\<rparr>)\<rparr>)"

definition cloudAvailable :: "world \<Rightarrow> bool" where
  "cloudAvailable w = (supabase w \<noteq> None)"

text \<open>\<open>crypto.getRandomValues(new Uint8Array(n))\<close>.\<close>

definition getRandomValues :: "world \<Rightarrow> nat \<Rightarrow> bytes \<times> world" where
  "getRandomValues w n =
     (map (random w) [drawn w ..< drawn w + n], w\<lparr>drawn := drawn w + n\<rparr>)"

text \<open>\<open>encryptJSON\<close>, lines 35 to 54 of \<open>crypto.ts\<close>, with its two draws.\<close>

definition encryptJSON :: "platform \<Rightarrow> world \<Rightarrow> string \<Rightarrow> json \<Rightarrow> string \<times> world" where
  "encryptJSON pl w passphrase obj =
     (let (salt, w1) = getRandomValues w 16;
          (iv, w2) = getRandomValues w1 12
      in (encryptJSON_with pl salt iv passphrase obj, w2))"

text \<open>
  Lines 37 to 44. \<open>maybeSingle()\<close> gives \<open>data = null\<close> when no row matches. There is
  no \<open>try\<close> around \<open>decryptJSON\<close>: what it throws, \<open>loadFromCloud\<close> throws.
\<close>

definition loadFromCloud :: "platform \<Rightarrow> world \<Rightarrow> string \<Rightarrow> string \<Rightarrow> error + json" where
  "loadFromCloud pl w householdId passphrase =
     (case supabase w of
        None \<Rightarrow> Inr JNull
      | Some sb \<Rightarrow>
          if select_error sb householdId then Inr JNull
          else
            (case map_of (rows sb) householdId of
               None \<Rightarrow> Inr JNull
             | Some payload \<Rightarrow>
                 let encryptedString = JSON_stringify pl payload
                 in decryptJSON pl passphrase encryptedString))"

text \<open>Lines 46 to 52.\<close>

definition saveToCloud ::
  "platform \<Rightarrow> world \<Rightarrow> string \<Rightarrow> string \<Rightarrow> json \<Rightarrow> (error + unit) \<times> world" where
  "saveToCloud pl w householdId passphrase state =
     (case supabase w of
        None \<Rightarrow> (Inr (), w)
      | Some sb \<Rightarrow>
          let (encrypted, w1) = encryptJSON pl w passphrase state in
          (case JSON_parse pl encrypted of
             None \<Rightarrow> (Inl SyntaxError, w1)
           | Some payload \<Rightarrow>
               (case upsert_error sb householdId payload of
                  Some e \<Rightarrow> (Inl (PostgrestError e), w1)
                | None \<Rightarrow>
                    (Inr (),
                     w1\<lparr>supabase :=
                          Some (sb\<lparr>rows := AList.update householdId payload (rows sb)\<rparr>)\<rparr>))))"

text \<open>
  \<open>householdId && passphrase\<close>: both arguments are a string or \<open>null\<close>
  (\<open>None\<close>), and the empty string is falsy.
\<close>

definition present :: "string option \<Rightarrow> bool" where
  "present x = (case x of None \<Rightarrow> False | Some s \<Rightarrow> s \<noteq> [])"

definition str :: "string option \<Rightarrow> string" where
  "str x = (case x of None \<Rightarrow> [] | Some s \<Rightarrow> s)"

text \<open>Lines 55 to 61.\<close>

definition loadState ::
  "platform \<Rightarrow> world \<Rightarrow> string option \<Rightarrow> string option \<Rightarrow> (error + json) \<times> world" where
  "loadState pl w householdId passphrase =
     (if present householdId \<and> present passphrase \<and> cloudAvailable w then
        (case loadFromCloud pl w (str householdId) (str passphrase) of
           Inl e \<Rightarrow> (Inl e, w)
         | Inr remote \<Rightarrow>
             if truthy remote then (Inr remote, saveLocal pl w remote)
             else (Inr (loadLocal pl w), w))
      else (Inr (loadLocal pl w), w))"

text \<open>Lines 62 to 65.\<close>

definition saveState ::
  "platform \<Rightarrow> world \<Rightarrow> json \<Rightarrow> string option \<Rightarrow> string option \<Rightarrow> (error + unit) \<times> world" where
  "saveState pl w state householdId passphrase =
     (let w1 = saveLocal pl w state in
      if present householdId \<and> present passphrase \<and> cloudAvailable w1
      then saveToCloud pl w1 (str householdId) (str passphrase) state
      else (Inr (), w1))"

section \<open>A small platform and two worlds, for concrete runs\<close>

text \<open>
  The concrete runs below need an instance of the platform. \<open>demo\<close> is a small one
  that computes: \<open>btoa\<close> is the identity and \<open>atob\<close> accepts every string; text is
  encoded one byte for a character; the derived key is the passphrase followed by the salt;
  encryption prefixes the plaintext with the key and the nonce, and decryption accepts a
  ciphertext only under the same key and nonce. \<open>JSON\<close> is a table over the few
  documents the runs use.
\<close>

definition demo_encode :: "string \<Rightarrow> bytes" where
  "demo_encode s = map (\<lambda>c. of_nat (of_char c)) s"

definition demo_decode :: "bytes \<Rightarrow> string" where
  "demo_decode bs = map (\<lambda>b. char_of (unat b)) bs"

definition ledger0 :: json where
  "ledger0 = JObj [(''buckets'', JArr []), (''txns'', JArr [])]"

definition ledger1 :: json where
  "ledger1 = JObj [(''buckets'', JArr [JStr ''income'']), (''txns'', JArr [])]"

definition salt0 :: bytes where
  "salt0 = demo_encode ''0123456789abcdef''"

definition iv0 :: bytes where
  "iv0 = demo_encode ''nonce-000001''"

definition envelope0 :: json where
  "envelope0 =
     JObj [(''v'', JNum 1),
           (''salt'', JStr ''0123456789abcdef''),
           (''iv'', JStr ''nonce-000001''),
           (''cipher'', JStr ''correct0123456789abcdefnonce-000001<ledger0>'')]"

definition envelope2 :: json where
  "envelope2 =
     JObj [(''v'', JNum 2),
           (''salt'', JStr ''0123456789abcdef''),
           (''iv'', JStr ''nonce-000001''),
           (''cipher'', JStr ''correct0123456789abcdefnonce-000001<ledger0>'')]"

definition demo_stringify :: "json \<Rightarrow> string" where
  "demo_stringify j =
     (if j = ledger0 then ''<ledger0>''
      else if j = ledger1 then ''<ledger1>''
      else if j = envelope0 then ''<envelope0>''
      else if j = envelope2 then ''<envelope2>''
      else ''null'')"

definition demo_parse :: "string \<Rightarrow> json option" where
  "demo_parse s =
     (if s = ''<ledger0>'' then Some ledger0
      else if s = ''<ledger1>'' then Some ledger1
      else if s = ''<envelope0>'' then Some envelope0
      else if s = ''<envelope2>'' then Some envelope2
      else if s = ''null'' then Some JNull
      else None)"

definition demo_decrypt :: "CryptoKey \<Rightarrow> bytes \<Rightarrow> bytes \<Rightarrow> bytes option" where
  "demo_decrypt key iv ct =
     (if take (length key + length iv) ct = key @ iv
      then Some (drop (length key + length iv) ct) else None)"

definition demo :: platform where
  "demo =
     \<lparr>JSON_stringify = demo_stringify,
      JSON_parse = demo_parse,
      btoa = (\<lambda>s. s),
      atob = Some,
      TextEncoder_encode = demo_encode,
      TextDecoder_decode = demo_decode,
      PBKDF2_deriveKey = (\<lambda>pw salt iterations hash len. pw @ salt),
      AES_GCM_encrypt = (\<lambda>key iv pt. key @ iv @ pt),
      AES_GCM_decrypt = demo_decrypt,
      String_of = (\<lambda>j. ''[object Object]'')\<rparr>"

text \<open>
  \<open>world0\<close>: the browser holds \<open>ledger1\<close> locally, the cloud is configured and holds
  for the household \<open>smith\<close> the envelope of \<open>ledger0\<close> under the passphrase
  \<open>correct\<close>; every \<open>upsert\<close> is rejected. \<open>world_private\<close>: the same without
  \<open>localStorage\<close>.
\<close>

definition backend0 :: backend where
  "backend0 =
     \<lparr>rows = [(''smith'', envelope0)],
      select_error = (\<lambda>h. False),
      upsert_error = (\<lambda>h payload. Some ''permission denied'')\<rparr>"

definition storage0 :: storage where
  "storage0 =
     \<lparr>items = [LOCAL_STORAGE_KEY \<mapsto> ''<ledger1>''],
      setItem_throws = (\<lambda>k v. False)\<rparr>"

definition world0 :: world where
  "world0 =
     \<lparr>localStorage = Some storage0,
      supabase = Some backend0,
      random = (\<lambda>i. (salt0 @ iv0) ! (i mod 28)),
      drawn = 0\<rparr>"

definition world_private :: world where
  "world_private = world0\<lparr>localStorage := None\<rparr>"

text \<open>Ledgers for the carry-forward runs.\<close>

definition groceries :: "int Bucket" where
  "groceries =
     \<lparr>id_Bucket = ''b1'', name = ''Groceries'', category = None,
      allocations = [(''2024-01'', 500), (''2024-02'', 600)],
      isIncome = None, deletedMonths = None\<rparr>"

definition income :: "int Bucket" where
  "income =
     \<lparr>id_Bucket = ''income'', name = ''Income'', category = None,
      allocations = [(''2024-02'', 0)],
      isIncome = Some True, deletedMonths = None\<rparr>"


definition paycheck :: "int Txn" where
  "paycheck =
     \<lparr>id_Txn = ''t1'', date = ''2024-02-01'', description = ''Paycheck'',
      amount = 3200, bucketId = Some ''income'', deleted = None\<rparr>"

definition state0 :: "int AppState" where
  "state0 = \<lparr>buckets = [income, groceries], txns = [paycheck], version = Some 1\<rparr>"

section \<open>Lemmas on the carry-forward\<close>

lemma update_absent: "map_of al k = None \<Longrightarrow> AList.update k v al = al @ [(k, v)]"
  by (induct al) auto

lemma seedBucket_shape:
  "seedBucket M b = b \<or>
   (map_of (allocations b) M = None \<and>
    (\<exists>c. seedBucket M b = b\<lparr>allocations := allocations b @ [(M, c)]\<rparr>))"
  unfolding seedBucket_def Let_def by (auto simp: update_absent)

lemma seedBucket_old_shape:
  "seedBucket_old M b = b \<or>
   (map_of (allocations b) M = None \<and>
    (\<exists>c. seedBucket_old M b = b\<lparr>allocations := allocations b @ [(M, c)]\<rparr>))"
  unfolding seedBucket_old_def Let_def by (auto simp: update_absent)

lemma seedBucket_present: "map_of (allocations b) M \<noteq> None \<Longrightarrow> seedBucket M b = b"
  by (simp add: seedBucket_def)

lemma seedBucket_old_present: "map_of (allocations b) M \<noteq> None \<Longrightarrow> seedBucket_old M b = b"
  by (simp add: seedBucket_old_def)

lemma seedBucket_idem: "seedBucket M (seedBucket M b) = seedBucket M b"
proof (cases "seedBucket M b = b")
  case True
  then show ?thesis by simp
next
  case False
  with seedBucket_shape [of M b] obtain c
    where "seedBucket M b = b\<lparr>allocations := allocations b @ [(M, c)]\<rparr>"
      and "map_of (allocations b) M = None"
    by blast
  then have "map_of (allocations (seedBucket M b)) M \<noteq> None"
    by simp
  then show ?thesis by (rule seedBucket_present)
qed

lemma seedBucket_old_idem: "seedBucket_old M (seedBucket_old M b) = seedBucket_old M b"
proof (cases "seedBucket_old M b = b")
  case True
  then show ?thesis by simp
next
  case False
  with seedBucket_old_shape [of M b] obtain c
    where "seedBucket_old M b = b\<lparr>allocations := allocations b @ [(M, c)]\<rparr>"
      and "map_of (allocations b) M = None"
    by blast
  then have "map_of (allocations (seedBucket_old M b)) M \<noteq> None"
    by simp
  then show ?thesis by (rule seedBucket_old_present)
qed


lemma last_sorted_Max: "sorted xs \<Longrightarrow> xs \<noteq> [] \<Longrightarrow> last xs = Max (set xs)"
  by (induction xs) (auto simp: max_def intro: antisym)

lemma hd_sorted_Min: "sorted xs \<Longrightarrow> xs \<noteq> [] \<Longrightarrow> hd xs = Min (set xs)"
  by (cases xs) (auto simp: Min_insert2)

lemma sort_Nil_iff: "sort xs = [] \<longleftrightarrow> xs = []"
  by (metis length_0_conv length_sort)

lemma last_elem_greatest:
  fixes xs :: "'a::linorder list"
  assumes "sorted xs" "t \<in> set xs" "\<forall>k\<in>set xs. k \<le> t"
  shows "last_elem xs = Some t"
proof -
  from assms(2) have ne: "xs \<noteq> []" by auto
  have "Max (set xs) = t"
    using assms(2,3) by (intro Max_eqI) auto
  with ne assms(1) show ?thesis
    by (simp add: last_elem_def last_sorted_Max)
qed

lemma prev_new:
  assumes "t \<in> set ks" "t < M" "\<forall>k\<in>set ks. k < M \<longrightarrow> k \<le> t"
  shows "last_elem (filter (\<lambda>k. k < M) (sort ks)) = Some t"
  using assms by (intro last_elem_greatest) (auto simp: sorted_wrt_filter)

lemma prev_old:
  assumes "t \<in> set ks" "t < M" "\<forall>k\<in>set ks. k < M \<longrightarrow> k \<le> t"
  shows "last_elem (sort (filter (\<lambda>k. k < M) ks)) = Some t"
  using assms by (intro last_elem_greatest) auto


lemma seedBucket_step:
  assumes absent: "map_of (allocations b) M = None"
    and t: "t \<in> set (Object_keys (allocations b))" "t < M"
    and top: "\<forall>k\<in>set (Object_keys (allocations b)). k < M \<longrightarrow> k \<le> t"
  shows "seedBucket M b =
         b\<lparr>allocations := allocations b @ [(M, carryOf (allocations b) (Some t))]\<rparr>"
proof -
  let ?ks = "Object_keys (allocations b)"
  from t(1) have ne: "sort ?ks \<noteq> []" by (auto simp: sort_Nil_iff)
  have "hd (sort ?ks) = Min (set ?ks)"
    using ne by (simp add: hd_sorted_Min)
  also have "\<dots> \<le> t" using t(1) by simp
  finally have "\<not> M < hd (sort ?ks)" using t(2) by simp
  moreover have "last_elem (filter (\<lambda>k. k < M) (sort ?ks)) = Some t"
    using t top by (rule prev_new)
  ultimately show ?thesis
    using absent ne by (simp add: seedBucket_def Let_def update_absent)
qed

lemma seedBucket_old_step:
  assumes absent: "map_of (allocations b) M = None"
    and t: "t \<in> set (Object_keys (allocations b))" "t < M"
    and top: "\<forall>k\<in>set (Object_keys (allocations b)). k < M \<longrightarrow> k \<le> t"
  shows "seedBucket_old M b =
         b\<lparr>allocations := allocations b @ [(M, carryOf (allocations b) (Some t))]\<rparr>"
proof -
  have "last_elem (sort (filter (\<lambda>k. k < M) (Object_keys (allocations b)))) = Some t"
    using t top by (rule prev_old)
  then show ?thesis
    using absent by (simp add: seedBucket_old_def Let_def update_absent)
qed



lemma carryOf_key:
  "k \<in> set (Object_keys allocs) \<Longrightarrow> k \<noteq> [] \<Longrightarrow>
   \<exists>v. map_of allocs k = Some v \<and> carryOf allocs (Some k) = v"
  by (cases "map_of allocs k") (auto simp: carryOf_def Object_keys_def map_of_eq_None_iff)







lemma seedBucket_only_adds: "only_adds_month M b (seedBucket M b)"
  using seedBucket_shape [of M b]
  by (auto simp: only_adds_month_def map_add_def split: option.splits)

lemma seedBucket_old_only_adds: "only_adds_month M b (seedBucket_old M b)"
  using seedBucket_old_shape [of M b]
  by (auto simp: only_adds_month_def map_add_def split: option.splits)

lemma latest_absent: "latest b t v \<Longrightarrow> t < M \<Longrightarrow> map_of (allocations b) M = None"
  by (force simp: latest_def Object_keys_def map_of_eq_None_iff)

lemma latest_carry:
  assumes "latest b t v" "t < M"
    and step: "b' = b\<lparr>allocations := allocations b @ [(M, carryOf (allocations b) (Some t))]\<rparr>"
  shows "latest b' M v"
proof -
  from assms(1) have tv: "map_of (allocations b) t = Some v" "t \<noteq> []"
    and top: "\<forall>k\<in>set (Object_keys (allocations b)). k \<le> t"
    by (simp_all add: latest_def)
  have c: "carryOf (allocations b) (Some t) = v"
    using tv by (simp add: carryOf_def)
  have absent: "map_of (allocations b) M = None"
    using assms(1,2) by (rule latest_absent)
  have "M \<noteq> []" using assms(2) by auto
  moreover have "\<forall>k\<in>set (Object_keys (allocations b')). k \<le> M"
    using top assms(2) by (auto simp: step Object_keys_def)
  moreover have "map_of (allocations b') M = Some v"
    using absent c by (simp add: step map_add_def)
  ultimately show ?thesis
    by (simp add: latest_def step Object_keys_def)
qed

lemma seedBucket_latest:
  assumes "latest b t v" "t < M"
  shows "latest (seedBucket M b) M v"
proof -
  have "seedBucket M b =
        b\<lparr>allocations := allocations b @ [(M, carryOf (allocations b) (Some t))]\<rparr>"
    using assms by (intro seedBucket_step latest_absent) (auto simp: latest_def)
  with assms show ?thesis by (rule latest_carry)
qed

lemma seedBucket_old_latest:
  assumes "latest b t v" "t < M"
  shows "latest (seedBucket_old M b) M v"
proof -
  have "seedBucket_old M b =
        b\<lparr>allocations := allocations b @ [(M, carryOf (allocations b) (Some t))]\<rparr>"
    using assms by (intro seedBucket_old_step latest_absent) (auto simp: latest_def)
  with assms show ?thesis by (rule latest_carry)
qed

lemma seedMonths_latest:
  assumes "latest b t v" "sorted_wrt (<) ms" "\<forall>m\<in>set ms. t < m" "ms \<noteq> []"
  shows "latest (seedMonths ms b) (last ms) v"
  using assms
proof (induction ms arbitrary: b t)
  case Nil
  then show ?case by simp
next
  case (Cons m ms)
  have step: "latest (seedBucket m b) m v"
    using Cons.prems(1,3) by (intro seedBucket_latest) auto
  show ?case
  proof (cases "ms = []")
    case True
    with step show ?thesis by (simp add: seedMonths_def)
  next
    case False
    have "latest (seedMonths ms (seedBucket m b)) (last ms) v"
      using step Cons.prems(2) False by (intro Cons.IH) auto
    with False show ?thesis by (simp add: seedMonths_def)
  qed
qed

lemma seedMonths_old_latest:
  assumes "latest b t v" "sorted_wrt (<) ms" "\<forall>m\<in>set ms. t < m" "ms \<noteq> []"
  shows "latest (seedMonths_old ms b) (last ms) v"
  using assms
proof (induction ms arbitrary: b t)
  case Nil
  then show ?case by simp
next
  case (Cons m ms)
  have step: "latest (seedBucket_old m b) m v"
    using Cons.prems(1,3) by (intro seedBucket_old_latest) auto
  show ?case
  proof (cases "ms = []")
    case True
    with step show ?thesis by (simp add: seedMonths_old_def)
  next
    case False
    have "latest (seedMonths_old ms (seedBucket_old m b)) (last ms) v"
      using step Cons.prems(2) False by (intro Cons.IH) auto
    with False show ?thesis by (simp add: seedMonths_old_def)
  qed
qed

lemma two_months_latest:
  assumes "set (Object_keys (allocations b)) = {m1, m2}" "m1 < m2"
  shows "\<exists>v. map_of (allocations b) m2 = Some v \<and> latest b m2 v"
proof -
  from assms(1) have "m2 \<in> fst ` set (allocations b)"
    by (auto simp: Object_keys_def)
  then obtain v where "map_of (allocations b) m2 = Some v"
    by (cases "map_of (allocations b) m2") (auto simp: map_of_eq_None_iff)
  moreover have "m2 \<noteq> []" using assms(2) by auto
  ultimately show ?thesis
    using assms by (auto simp: latest_def)
qed

section \<open>Claims on the carry-forward\<close>







text \<open>
  Claim C6 (idempotence). Running the transition for a month \<open>M\<close> twice gives the state
  that running it once gives, in both revisions.
\<close>

theorem carryForward_idempotent:
  "carryForward M (carryForward M s) = carryForward M s
   \<and> carryForward_old M (carryForward_old M s) = carryForward_old M s"
  by (simp add: carryForward_def carryForward_old_def seedBucket_idem seedBucket_old_idem)

text \<open>
  Claim C7 (ordering independence). A bucket has entries at \<open>m1 < m2\<close> only, and
  \<open>m3\<close> is after \<open>m2\<close>. Seeding \<open>m3\<close> directly gives \<open>m3\<close> the amount of
  \<open>m2\<close>; so does seeding, one after the other, the months of any ascending list \<open>ms\<close>
  of months after \<open>m2\<close> that ends in \<open>m3\<close>, such as \<open>m2+1, m2+2, \<dots>, m3\<close>. Both
  revisions.
\<close>

theorem carryForward_order_independent:
  assumes only: "set (Object_keys (allocations b)) = {m1, m2}" and "m1 < m2" and "m2 < m3"
    and asc: "sorted_wrt (<) ms" and after: "\<forall>m\<in>set ms. m2 < m"
    and ends: "ms \<noteq> []" "last ms = m3"
  shows "map_of (allocations (seedBucket m3 b)) m3 = map_of (allocations b) m2
       \<and> map_of (allocations (seedMonths ms b)) m3 = map_of (allocations b) m2
       \<and> map_of (allocations (seedBucket_old m3 b)) m3 = map_of (allocations b) m2
       \<and> map_of (allocations (seedMonths_old ms b)) m3 = map_of (allocations b) m2
       \<and> map_of (allocations b) m2 \<noteq> None"
proof -
  from two_months_latest [OF only \<open>m1 < m2\<close>] obtain v
    where v: "map_of (allocations b) m2 = Some v" and l: "latest b m2 v" by blast
  have "latest (seedBucket m3 b) m3 v"
    using l \<open>m2 < m3\<close> by (rule seedBucket_latest)
  moreover have "latest (seedBucket_old m3 b) m3 v"
    using l \<open>m2 < m3\<close> by (rule seedBucket_old_latest)
  moreover have "latest (seedMonths ms b) m3 v"
    using seedMonths_latest [OF l asc after ends(1)] ends(2) by simp
  moreover have "latest (seedMonths_old ms b) m3 v"
    using seedMonths_old_latest [OF l asc after ends(1)] ends(2) by simp
  ultimately show ?thesis
    using v by (simp add: latest_def)
qed

theorem carryForward_order_independent_witness:
  "map_of (allocations (seedBucket ''2024-05'' groceries)) ''2024-05'' = Some 600
   \<and> map_of (allocations (seedMonths [''2024-03'', ''2024-04'', ''2024-05''] groceries)) ''2024-05''
       = Some 600
   \<and> map_of (allocations groceries) ''2024-02'' = Some 600"
  using carryForward_order_independent [of groceries "''2024-01''" "''2024-02''" "''2024-05''"
      "[''2024-03'', ''2024-04'', ''2024-05'']"]
  by (simp add: groceries_def Object_keys_def)

text \<open>
  Claim C10 (frame). The transition changes nothing but \<open>buckets\<close>: the transactions
  and the version stay. The list of buckets keeps its length and order, and each bucket
  keeps its id, name, category, income flag and deleted months; every entry it had is
  still there with the same amount; the only change there can be is one new entry, keyed
  by \<open>M\<close>, in a bucket that had none at \<open>M\<close>. Both revisions.
\<close>

theorem carryForward_frame:
  "txns (carryForward M s) = txns s \<and> version (carryForward M s) = version s
   \<and> AppState.more (carryForward M s) = AppState.more s
   \<and> length (buckets (carryForward M s)) = length (buckets s)
   \<and> (\<forall>i<length (buckets s). only_adds_month M (buckets s ! i) (buckets (carryForward M s) ! i))
   \<and> txns (carryForward_old M s) = txns s \<and> version (carryForward_old M s) = version s
   \<and> AppState.more (carryForward_old M s) = AppState.more s
   \<and> length (buckets (carryForward_old M s)) = length (buckets s)
   \<and> (\<forall>i<length (buckets s).
         only_adds_month M (buckets s ! i) (buckets (carryForward_old M s) ! i))"
  by (simp add: carryForward_def carryForward_old_def seedBucket_only_adds
      seedBucket_old_only_adds)

theorem carryForward_frame_witness:
  "map_of (allocations (buckets state0 ! 1)) ''2024-01'' = Some 500
   \<and> map_of (allocations (buckets (carryForward ''2024-03'' state0) ! 1)) ''2024-01'' = Some 500
   \<and> txns (carryForward ''2024-03'' state0) = [paycheck]
   \<and> name (buckets (carryForward ''2024-03'' state0) ! 1) = ''Groceries''"
proof -
  have i: "(1::nat) < length (buckets state0)" by (simp add: state0_def)
  from carryForward_frame [of "''2024-03''" state0] i
  have f: "only_adds_month ''2024-03'' (buckets state0 ! 1)
             (buckets (carryForward ''2024-03'' state0) ! 1)"
    and t: "txns (carryForward ''2024-03'' state0) = txns state0"
    by blast+
  have e: "map_of (allocations (buckets state0 ! 1)) ''2024-01'' = Some 500"
    "name (buckets state0 ! 1) = ''Groceries''"
    by (simp_all add: state0_def groceries_def)
  from f e have "map_of (allocations (buckets (carryForward ''2024-03'' state0) ! 1)) ''2024-01''
        = Some 500"
    and "name (buckets (carryForward ''2024-03'' state0) ! 1) = ''Groceries''"
    unfolding only_adds_month_def by auto
  with e t show ?thesis by (simp add: state0_def)
qed

section \<open>Lemmas on the codec and the stores\<close>

lemma byte_char_byte: "(of_nat (of_char (char_of (unat b))) :: 8 word) = b"
proof -
  have "unat b < 2 ^ LENGTH(8)" by (rule unsigned_less)
  then have "unat b < 256" by simp
  then have "(of_char (char_of (unat b)) :: nat) = unat b"
    by (simp add: of_char_of)
  then show ?thesis by simp
qed

lemma char_byte_char: "char_of (unat (of_nat (of_char c) :: 8 word)) = c"
proof -
  have "unat (of_nat (of_char c) :: 8 word) = of_char c mod 256"
    by (simp add: unat_of_nat)
  then show ?thesis by (simp add: char_of_def [symmetric] of_char_mod_256)
qed

lemma b64_roundtrip:
  assumes "\<forall>s. atob pl (btoa pl s) = Some s"
  shows "b64DecodeToBytes pl (b64Encode pl bs) = Inr bs"
  using assms
  by (simp add: b64DecodeToBytes_def b64Encode_def comp_def byte_char_byte del: of_char_of)

lemma envelope_fields:
  "truthy (envelope pl salt iv p D)"
  "getProp (envelope pl salt iv p D) ''v'' = Some (JNum 1)"
  "getProp (envelope pl salt iv p D) ''salt'' = Some (JStr (b64Encode pl salt))"
  "getProp (envelope pl salt iv p D) ''iv'' = Some (JStr (b64Encode pl iv))"
  "getProp (envelope pl salt iv p D) ''cipher'' =
     Some (JStr (b64Encode pl (AES_GCM_encrypt pl (deriveKey pl p salt) iv
                                 (TextEncoder_encode pl (JSON_stringify pl D)))))"
  by (simp_all add: envelope_def Let_def)

lemma encryptJSON_draws:
  "fst (encryptJSON pl w p D) =
     encryptJSON_with pl (map (random w) [drawn w ..< drawn w + 16])
                         (map (random w) [drawn w + 16 ..< drawn w + 28]) p D"
  by (simp add: encryptJSON_def getRandomValues_def add.commute)

lemma saveLocal_frame:
  "supabase (saveLocal pl w D) = supabase w"
  "random (saveLocal pl w D) = random w"
  "drawn (saveLocal pl w D) = drawn w"
  by (simp_all add: saveLocal_def Let_def split: option.splits)

lemma encryptJSON_frame:
  "localStorage (snd (encryptJSON pl w p D)) = localStorage w"
  "supabase (snd (encryptJSON pl w p D)) = supabase w"
  by (simp_all add: encryptJSON_def getRandomValues_def)

lemma saveToCloud_local:
  "localStorage (snd (saveToCloud pl w h p D)) = localStorage w"
  by (simp add: saveToCloud_def case_prod_beta encryptJSON_frame split: option.splits)

lemma saveState_local:
  "localStorage (snd (saveState pl w D hh pp)) = localStorage (saveLocal pl w D)"
  by (simp add: saveState_def Let_def saveToCloud_local)

lemma loadLocal_cong: "localStorage w = localStorage w' \<Longrightarrow> loadLocal pl w = loadLocal pl w'"
  by (simp add: loadLocal_def)

lemma saveLocal_load:
  assumes "localStorage w = Some st"
    and "\<not> setItem_throws st LOCAL_STORAGE_KEY (JSON_stringify pl D)"
    and "JSON_parse pl (JSON_stringify pl D) = Some D"
    and "JSON_stringify pl D \<noteq> []"
  shows "loadLocal pl (saveLocal pl w D) = D"
  using assms by (simp add: loadLocal_def saveLocal_def Let_def)

lemma saveLocal_unavailable: "localStorage w = None \<Longrightarrow> saveLocal pl w D = w"
  by (simp add: saveLocal_def)

lemma saveState_cloud:
  assumes "present hh" "present pp" "supabase w = Some sb"
  shows "saveState pl w D hh pp = saveToCloud pl (saveLocal pl w D) (str hh) (str pp) D"
  using assms by (simp add: saveState_def Let_def cloudAvailable_def saveLocal_frame)

lemma saveToCloud_rejected:
  assumes "supabase w = Some sb"
    and "JSON_parse pl (fst (encryptJSON pl w p D)) = Some payload"
    and "upsert_error sb h payload = Some e"
  shows "saveToCloud pl w h p D = (Inl (PostgrestError e), snd (encryptJSON pl w p D))"
  using assms by (simp add: saveToCloud_def case_prod_beta)

lemma loadState_rethrows:
  assumes "present hh" "present pp" "cloudAvailable w"
    and "loadFromCloud pl w (str hh) (str pp) = Inl e"
  shows "loadState pl w hh pp = (Inl e, w)"
  using assms by (simp add: loadState_def)

text \<open>The platform \<open>demo\<close> obeys the laws the theorems ask for.\<close>

lemma demo_decode_encode: "demo_decode (demo_encode s) = s"
  unfolding demo_decode_def demo_encode_def
  by (induction s) (simp_all add: char_byte_char del: of_nat_of_char)

lemma demo_encode_append: "demo_encode (s @ t) = demo_encode s @ demo_encode t"
  by (simp add: demo_encode_def)

lemma b64Encode_demo: "b64Encode demo bs = demo_decode bs"
  by (simp add: b64Encode_def demo_def demo_decode_def)

lemma b64Decode_demo: "b64DecodeToBytes demo s = Inr (demo_encode s)"
  by (simp add: b64DecodeToBytes_def demo_def demo_encode_def)

lemma demo_b64: "\<forall>s. atob demo (btoa demo s) = Some s"
  by (simp add: demo_def)

lemma demo_aead: "\<forall>k n pt. AES_GCM_decrypt demo k n (AES_GCM_encrypt demo k n pt) = Some pt"
  by (simp add: demo_def demo_decrypt_def)

lemma demo_utf8: "TextDecoder_decode demo (TextEncoder_encode demo s) = s"
  by (simp add: demo_def demo_decode_encode)

lemma demo_json:
  "JSON_parse demo (JSON_stringify demo ledger0) = Some ledger0"
  "JSON_parse demo (JSON_stringify demo ledger1) = Some ledger1"
  "JSON_parse demo (JSON_stringify demo envelope0) = Some envelope0"
  "JSON_parse demo (JSON_stringify demo envelope2) = Some envelope2"
  by (simp_all add: demo_def demo_stringify_def demo_parse_def ledger0_def ledger1_def
      envelope0_def envelope2_def)

lemma demo_cipher:
  "AES_GCM_encrypt demo (deriveKey demo ''correct'' salt0) iv0
     (TextEncoder_encode demo (JSON_stringify demo ledger0))
   = demo_encode ''correct0123456789abcdefnonce-000001<ledger0>''"
proof -
  have "JSON_stringify demo ledger0 = ''<ledger0>''"
    by (simp add: demo_def demo_stringify_def)
  then show ?thesis
    by (simp add: deriveKey_def demo_def salt0_def iv0_def demo_encode_append [symmetric])
qed

lemma demo_envelope: "envelope demo salt0 iv0 ''correct'' ledger0 = envelope0"
  unfolding envelope_def Let_def demo_cipher b64Encode_demo
  by (simp add: salt0_def iv0_def demo_decode_encode envelope0_def)

lemma wrong_passphrase: "decryptJSON demo ''wrong'' ''<envelope0>'' = Inl OperationError"
proof -
  have p: "JSON_parse demo ''<envelope0>'' = Some envelope0"
    by (simp add: demo_def demo_parse_def)
  have d: "AES_GCM_decrypt demo (deriveKey demo ''wrong'' (demo_encode ''0123456789abcdef''))
             (demo_encode ''nonce-000001'')
             (demo_encode ''correct0123456789abcdefnonce-000001<ledger0>'') = None"
    by (simp add: demo_def deriveKey_def demo_decrypt_def demo_encode_def)
  show ?thesis
    unfolding decryptJSON_def p
    by (simp add: envelope0_def b64Decode_demo d)
qed

lemma world0_draws:
  "map (random world0) [0 ..< 0 + 16] = salt0"
  "map (random world0) [0 + 16 ..< 0 + 28] = iv0"
  by (simp_all add: world0_def salt0_def iv0_def demo_encode_def upt_rec [of _ "numeral _"]
      upt_rec [of 0])

lemma world0_encrypt:
  "fst (encryptJSON demo (saveLocal demo world0 ledger0) ''correct'' ledger0) = ''<envelope0>''"
proof -
  have r: "random (saveLocal demo world0 ledger0) = random world0"
    and d: "drawn (saveLocal demo world0 ledger0) = 0"
    by (simp_all add: saveLocal_frame) (simp add: world0_def)
  have "JSON_stringify demo envelope0 = ''<envelope0>''"
    by (simp add: demo_def demo_stringify_def envelope0_def ledger0_def ledger1_def)
  then show ?thesis
    unfolding encryptJSON_draws r d world0_draws encryptJSON_with_def demo_envelope .
qed

lemma world0_payload:
  "JSON_parse demo (fst (encryptJSON demo (saveLocal demo world0 ledger0) ''correct'' ledger0))
   = Some envelope0"
  by (simp add: world0_encrypt) (simp add: demo_def demo_parse_def)

lemma world0_save_rejected:
  "fst (saveState demo world0 ledger0 (Some ''smith'') (Some ''correct''))
   = Inl (PostgrestError ''permission denied'')"
proof -
  have s: "supabase world0 = Some backend0" by (simp add: world0_def)
  have "saveState demo world0 ledger0 (Some ''smith'') (Some ''correct'')
        = saveToCloud demo (saveLocal demo world0 ledger0) ''smith'' ''correct'' ledger0"
    using saveState_cloud [of "Some ''smith''" "Some ''correct''" world0 backend0 demo ledger0] s
    by (simp add: present_def str_def)
  moreover have "supabase (saveLocal demo world0 ledger0) = Some backend0"
    using s by (simp add: saveLocal_frame)
  moreover have "upsert_error backend0 ''smith'' envelope0 = Some ''permission denied''"
    by (simp add: backend0_def)
  ultimately show ?thesis
    using world0_payload by (simp add: saveToCloud_rejected)
qed


section \<open>Claims on the codec and the stores\<close>

text \<open>
  Claim C1 (round trip). On a platform where \<open>atob\<close> inverts \<open>btoa\<close>, AES-GCM
  decryption inverts encryption under the same key and nonce, and the text of \<open>D\<close>
  survives \<open>TextEncoder\<close> and \<open>TextDecoder\<close>, for every passphrase \<open>p\<close>, every
  salt and nonce drawn, and every document \<open>D\<close> that \<open>JSON\<close> serialises
  faithfully (as it does the envelope): \<open>decryptJSON\<close> of the payload that
  \<open>encryptJSON\<close> builds returns \<open>D\<close>. \<open>encryptJSON\<close> is \<open>encryptJSON_with\<close> at
  the salt and nonce it draws (lemma \<open>encryptJSON_draws\<close>).
\<close>

theorem encrypt_decrypt_roundtrip:
  assumes b64: "\<forall>s. atob pl (btoa pl s) = Some s"
    and aead: "\<forall>k n pt. AES_GCM_decrypt pl k n (AES_GCM_encrypt pl k n pt) = Some pt"
    and utf8: "TextDecoder_decode pl (TextEncoder_encode pl (JSON_stringify pl D)) = JSON_stringify pl D"
    and doc: "JSON_parse pl (JSON_stringify pl D) = Some D"
    and env: "JSON_parse pl (JSON_stringify pl (envelope pl salt iv p D)) = Some (envelope pl salt iv p D)"
  shows "decryptJSON pl p (encryptJSON_with pl salt iv p D) = Inr D"
  using aead utf8 doc env
  by (simp add: decryptJSON_def encryptJSON_with_def envelope_fields b64_roundtrip [OF b64])

theorem encrypt_decrypt_roundtrip_witness:
  "decryptJSON demo ''correct'' (encryptJSON_with demo salt0 iv0 ''correct'' ledger0) = Inr ledger0"
  using encrypt_decrypt_roundtrip [of demo ledger0 salt0 iv0 "''correct''"]
  by (simp add: demo_b64 demo_aead demo_utf8 demo_json demo_envelope)

text \<open>
  Claim C8 (unsupported version). A payload that parses, and whose \<open>v\<close> is anything but
  the number \<open>1\<close> (another number, a string, or no \<open>v\<close> at all), makes
  \<open>decryptJSON\<close> throw \<open>Error("Unsupported payload")\<close>. The check comes first:
  the result is the same whatever \<open>atob\<close>, the key derivation and the decryption would
  do, so none of them has a say.
\<close>

theorem decryptJSON_unsupported_version:
  assumes "JSON_parse pl payload = Some parsed" and "getProp parsed ''v'' \<noteq> Some (JNum 1)"
  shows "decryptJSON pl p payload = Inl Unsupported_payload
       \<and> decryptJSON (pl\<lparr>atob := a, PBKDF2_deriveKey := kdf, AES_GCM_decrypt := dec\<rparr>) p payload
           = Inl Unsupported_payload"
  using assms by (simp add: decryptJSON_def)

theorem decryptJSON_unsupported_version_witness:
  "JSON_parse demo ''<envelope2>'' = Some envelope2 \<and> getProp envelope2 ''v'' = Some (JNum 2)
   \<and> decryptJSON demo ''correct'' ''<envelope2>'' = Inl Unsupported_payload"
  using decryptJSON_unsupported_version [of demo "''<envelope2>''" envelope2 "''correct''"]
  by (simp add: demo_def demo_parse_def envelope2_def)

text \<open>
  Claim C2 (a failed decryption and \<open>loadState\<close>). The claim asks \<open>loadState\<close> to
  fall back to the local ledger when the remote envelope does not decrypt. Neither
  \<open>loadFromCloud\<close> nor \<open>loadState\<close> catches what \<open>decryptJSON\<close> throws. In
  \<open>world0\<close> the cloud holds an envelope made with the passphrase \<open>correct\<close>, and
  the browser holds \<open>ledger1\<close>; with the passphrase \<open>wrong\<close>, \<open>loadState\<close>
  rejects with \<open>OperationError\<close> where the claim has it return \<open>ledger1\<close>.
\<close>

theorem loadState_rethrows_decryption_failure:
  "loadFromCloud demo world0 ''smith'' ''wrong'' = Inl OperationError
   \<and> loadState demo world0 (Some ''smith'') (Some ''wrong'') = (Inl OperationError, world0)
   \<and> loadLocal demo world0 = ledger1"
proof -
  have s: "JSON_stringify demo envelope0 = ''<envelope0>''"
    by (simp add: demo_def demo_stringify_def envelope0_def ledger0_def ledger1_def)
  have c: "loadFromCloud demo world0 ''smith'' ''wrong'' = Inl OperationError"
    by (simp add: loadFromCloud_def world0_def backend0_def s wrong_passphrase)
  have l: "loadLocal demo world0 = ledger1"
    by (simp add: loadLocal_def world0_def storage0_def demo_def demo_parse_def)
  from c have "loadState demo world0 (Some ''smith'') (Some ''wrong'') = (Inl OperationError, world0)"
    by (intro loadState_rethrows) (simp_all add: present_def str_def cloudAvailable_def world0_def)
  with c l show ?thesis by simp
qed

text \<open>
  Claim C3 (local-first durability), as stated: after \<open>saveState(D, hh, pp)\<close> the local
  load always returns \<open>D\<close>. It does not when there is no \<open>localStorage\<close>:
  \<open>saveLocal\<close> returns at once (line 23), and the load gives \<open>null\<close>.
\<close>

theorem saveState_durability_counterexample:
  "localStorage world_private = None
   \<and> loadLocal demo (snd (saveState demo world_private ledger0 (Some ''smith'') (Some ''correct'')))
       = JNull
   \<and> loadLocal demo (snd (saveState demo world_private ledger0 (Some ''smith'') (Some ''correct'')))
       \<noteq> ledger0"
proof -
  have n: "localStorage world_private = None" by (simp add: world_private_def)
  then have "localStorage (snd (saveState demo world_private ledger0 (Some ''smith'')
                 (Some ''correct''))) = None"
    by (simp add: saveState_local saveLocal_unavailable)
  then have "loadLocal demo (snd (saveState demo world_private ledger0 (Some ''smith'')
                 (Some ''correct''))) = JNull"
    by (simp add: loadLocal_def)
  with n show ?thesis by (simp add: ledger0_def)
qed

text \<open>
  Claim C3, amended: when \<open>localStorage\<close> is there, \<open>setItem\<close> accepts the text of
  \<open>D\<close>, and \<open>JSON\<close> serialises \<open>D\<close> faithfully, the local load after
  \<open>saveState(D, hh, pp)\<close> returns \<open>D\<close>, whatever the credentials and whatever the
  remote does, a failing upsert included. Without \<open>localStorage\<close> the save is a
  silent no-op and the load after it returns \<open>null\<close>.
\<close>

theorem saveState_local_durability:
  "(localStorage w = Some st \<and>
    \<not> setItem_throws st LOCAL_STORAGE_KEY (JSON_stringify pl D) \<and>
    JSON_parse pl (JSON_stringify pl D) = Some D \<and> JSON_stringify pl D \<noteq> []
      \<longrightarrow> loadLocal pl (snd (saveState pl w D hh pp)) = D)
   \<and> (localStorage w = None \<longrightarrow> loadLocal pl (snd (saveState pl w D hh pp)) = JNull)"
proof (intro conjI impI)
  assume a: "localStorage w = Some st \<and>
    \<not> setItem_throws st LOCAL_STORAGE_KEY (JSON_stringify pl D) \<and>
    JSON_parse pl (JSON_stringify pl D) = Some D \<and> JSON_stringify pl D \<noteq> []"
  have "loadLocal pl (snd (saveState pl w D hh pp)) = loadLocal pl (saveLocal pl w D)"
    by (rule loadLocal_cong) (rule saveState_local)
  also have "\<dots> = D" using a by (intro saveLocal_load) auto
  finally show "loadLocal pl (snd (saveState pl w D hh pp)) = D" .
next
  assume n: "localStorage w = None"
  have "loadLocal pl (snd (saveState pl w D hh pp)) = loadLocal pl (saveLocal pl w D)"
    by (rule loadLocal_cong) (rule saveState_local)
  also have "\<dots> = JNull" using n by (simp add: saveLocal_unavailable loadLocal_def)
  finally show "loadLocal pl (snd (saveState pl w D hh pp)) = JNull" .
qed

theorem saveState_local_durability_witness:
  "localStorage world0 = Some storage0
   \<and> fst (saveState demo world0 ledger0 (Some ''smith'') (Some ''correct''))
       = Inl (PostgrestError ''permission denied'')
   \<and> loadLocal demo (snd (saveState demo world0 ledger0 (Some ''smith'') (Some ''correct'')))
       = ledger0
   \<and> loadLocal demo (snd (saveState demo world_private ledger0 None None)) = JNull"
proof -
  have a: "localStorage world0 = Some storage0" by (simp add: world0_def)
  have b: "\<not> setItem_throws storage0 LOCAL_STORAGE_KEY (JSON_stringify demo ledger0)"
    by (simp add: storage0_def)
  have c: "JSON_stringify demo ledger0 \<noteq> []"
    by (simp add: demo_def demo_stringify_def)
  have n: "localStorage world_private = None" by (simp add: world_private_def)
  from saveState_local_durability [of world0 storage0 demo ledger0 "Some ''smith''" "Some ''correct''"]
       saveState_local_durability [of world_private storage0 demo ledger0 None None]
       a b c n world0_save_rejected demo_json(1)
  show ?thesis by simp
qed



end
